theory Spec2Isabelle
  imports Main
begin

section \<open>Data model (the interfaces of the admin shell)\<close>

text \<open>
  The records follow the TypeScript interfaces of the single-file application
  (\<^verbatim>\<open>User\<close>, \<^verbatim>\<open>Field\<close>, \<^verbatim>\<open>ContentType\<close>, \<^verbatim>\<open>ContentEntry\<close>,
  \<^verbatim>\<open>AppState\<close>, \<^verbatim>\<open>UIState\<close>). Members called \<^verbatim>\<open>id\<close>, \<^verbatim>\<open>name\<close>,
  \<^verbatim>\<open>type\<close> and \<^verbatim>\<open>fields\<close> carry the owning interface as a prefix.
  Optional members (\<^verbatim>\<open>required?\<close>, \<^verbatim>\<open>options?\<close>, \<^verbatim>\<open>relation?\<close>) are options.
  The values of an entry's \<^verbatim>\<open>data: Record<string, any>\<close> are of an arbitrary type \<open>'v\<close>.
  Timestamps are the ISO strings the source stores.
\<close>

datatype FieldType = FT_text | FT_textarea | FT_number | FT_boolean | FT_select | FT_relation | FT_media

datatype EntryStatus = draft | published

record User =
  user_id :: string
  user_name :: string
  email :: string
  role :: string

record Field =
  field_id :: string
  field_name :: string
  field_type :: FieldType
  required :: "bool option"
  options :: "string list option"
  relation :: "string option"

record ContentType =
  ct_id :: string
  ct_name :: string
  singularName :: string
  pluralName :: string
  ct_fields :: "Field list"

record 'v ContentEntry =
  entry_id :: string
  contentType :: string
  status :: EntryStatus
  data :: "string \<rightharpoonup> 'v"
  createdAt :: string
  updatedAt :: string

record 'v AppState =
  user :: "User option"
  isAuthenticated :: bool
  contentTypes :: "ContentType list"
  entries :: "'v ContentEntry list"

text \<open>
  \<^verbatim>\<open>UIState.theme\<close> and \<^verbatim>\<open>UIState.direction\<close> are declared as the string-literal unions
  \<^verbatim>\<open>'light' | 'dark'\<close> and \<^verbatim>\<open>'ltr' | 'rtl'\<close>, but the provider fills them from
  \<^verbatim>\<open>localStorage.getItem(...) as Theme\<close>, an unchecked cast of an arbitrary string, and the
  reducer compares them with \<^verbatim>\<open>===\<close>. They are therefore the strings they are at run time.
\<close>

record UIState =
  theme :: string
  direction :: string
  sidebarOpen :: bool
  loading :: bool
  error :: "string option"

section \<open>Actions\<close>

text \<open>
  Both reducers take \<^verbatim>\<open>action: any\<close> and read \<^verbatim>\<open>action.type\<close> (a string, compared by
  the \<^verbatim>\<open>switch\<close>) and \<^verbatim>\<open>action.payload\<close>. The payload is a tagged union of the shapes
  the reducers store into the typed state. A handled action whose payload is not of the type of
  the member it is stored in would leave the declared state type (or throw on
  \<^verbatim>\<open>action.payload.id\<close>); such a dispatch is the error \<open>PayloadTypeMismatch\<close>.
\<close>

datatype 'v js_payload =
    PUndefined
  | PNull
  | PString string
  | PBoolean bool
  | PUser User
  | PContentType ContentType
  | PContentTypes "ContentType list"
  | PEntry "'v ContentEntry"
  | PEntries "'v ContentEntry list"

record 'v action =
  action_type :: string
  payload :: "'v js_payload"

datatype js_error = PayloadTypeMismatch

section \<open>The reducers\<close>

text \<open>\<^verbatim>\<open>appReducer\<close>: the \<^verbatim>\<open>switch\<close> in the order of the source, \<^verbatim>\<open>default: return state\<close> last.\<close>

definition appReducer :: "'v AppState \<Rightarrow> 'v action \<Rightarrow> js_error + 'v AppState" where
  "appReducer state action =
    (if action_type action = ''LOGIN'' then
       (case payload action of
          PUser u \<Rightarrow> Inr (state\<lparr>user := Some u, isAuthenticated := True\<rparr>)
        | PNull \<Rightarrow> Inr (state\<lparr>user := None, isAuthenticated := True\<rparr>)
        | _ \<Rightarrow> Inl PayloadTypeMismatch)
     else if action_type action = ''LOGOUT'' then
       Inr (state\<lparr>user := None, isAuthenticated := False\<rparr>)
     else if action_type action = ''SET_CONTENT_TYPES'' then
       (case payload action of
          PContentTypes cts \<Rightarrow> Inr (state\<lparr>contentTypes := cts\<rparr>)
        | _ \<Rightarrow> Inl PayloadTypeMismatch)
     else if action_type action = ''ADD_CONTENT_TYPE'' then
       (case payload action of
          PContentType p \<Rightarrow> Inr (state\<lparr>contentTypes := contentTypes state @ [p]\<rparr>)
        | _ \<Rightarrow> Inl PayloadTypeMismatch)
     else if action_type action = ''UPDATE_CONTENT_TYPE'' then
       (case payload action of
          PContentType p \<Rightarrow>
            Inr (state\<lparr>contentTypes :=
                   map (\<lambda>ct. if ct_id ct = ct_id p then p else ct) (contentTypes state)\<rparr>)
        | _ \<Rightarrow> Inl PayloadTypeMismatch)
     else if action_type action = ''DELETE_CONTENT_TYPE'' then
       (case payload action of
          PString i \<Rightarrow>
            Inr (state\<lparr>contentTypes := filter (\<lambda>ct. ct_id ct \<noteq> i) (contentTypes state)\<rparr>)
        | _ \<Rightarrow> Inl PayloadTypeMismatch)
     else if action_type action = ''SET_ENTRIES'' then
       (case payload action of
          PEntries es \<Rightarrow> Inr (state\<lparr>entries := es\<rparr>)
        | _ \<Rightarrow> Inl PayloadTypeMismatch)
     else if action_type action = ''ADD_ENTRY'' then
       (case payload action of
          PEntry p \<Rightarrow> Inr (state\<lparr>entries := entries state @ [p]\<rparr>)
        | _ \<Rightarrow> Inl PayloadTypeMismatch)
     else if action_type action = ''UPDATE_ENTRY'' then
       (case payload action of
          PEntry p \<Rightarrow>
            Inr (state\<lparr>entries :=
                   map (\<lambda>e. if entry_id e = entry_id p then p else e) (entries state)\<rparr>)
        | _ \<Rightarrow> Inl PayloadTypeMismatch)
     else if action_type action = ''DELETE_ENTRY'' then
       (case payload action of
          PString i \<Rightarrow>
            Inr (state\<lparr>entries := filter (\<lambda>e. entry_id e \<noteq> i) (entries state)\<rparr>)
        | _ \<Rightarrow> Inl PayloadTypeMismatch)
     else Inr state)"

text \<open>
  \<^verbatim>\<open>uiReducer\<close>, with the case labels exactly as the source spells them; the first one is
  \<^verbatim>\<open>'TOGGE_TLHEME'\<close>.
\<close>

definition uiReducer :: "UIState \<Rightarrow> 'v action \<Rightarrow> js_error + UIState" where
  "uiReducer state action =
    (if action_type action = ''TOGGE_TLHEME'' then
       Inr (state\<lparr>theme := (if theme state = ''light'' then ''dark'' else ''light'')\<rparr>)
     else if action_type action = ''SET_THEME'' then
       (case payload action of
          PString t \<Rightarrow> Inr (state\<lparr>theme := t\<rparr>)
        | _ \<Rightarrow> Inl PayloadTypeMismatch)
     else if action_type action = ''TOGGLE_DIRECTION'' then
       Inr (state\<lparr>direction := (if direction state = ''ltr'' then ''rtl'' else ''ltr'')\<rparr>)
     else if action_type action = ''SET_DIRECTION'' then
       (case payload action of
          PString d \<Rightarrow> Inr (state\<lparr>direction := d\<rparr>)
        | _ \<Rightarrow> Inl PayloadTypeMismatch)
     else if action_type action = ''TOGGLE_SIDEBAR'' then
       Inr (state\<lparr>sidebarOpen := \<not> sidebarOpen state\<rparr>)
     else if action_type action = ''SET_LOADING'' then
       (case payload action of
          PBoolean b \<Rightarrow> Inr (state\<lparr>loading := b\<rparr>)
        | _ \<Rightarrow> Inl PayloadTypeMismatch)
     else if action_type action = ''SET_ERROR'' then
       (case payload action of
          PString m \<Rightarrow> Inr (state\<lparr>error := Some m\<rparr>)
        | PNull \<Rightarrow> Inr (state\<lparr>error := None\<rparr>)
        | _ \<Rightarrow> Inl PayloadTypeMismatch)
     else Inr state)"

text \<open>The case labels of the two \<^verbatim>\<open>switch\<close> statements, as written in the source.\<close>

definition appReducer_cases :: "string list" where
  "appReducer_cases =
    [''LOGIN'', ''LOGOUT'', ''SET_CONTENT_TYPES'', ''ADD_CONTENT_TYPE'', ''UPDATE_CONTENT_TYPE'',
     ''DELETE_CONTENT_TYPE'', ''SET_ENTRIES'', ''ADD_ENTRY'', ''UPDATE_ENTRY'', ''DELETE_ENTRY'']"

definition uiReducer_cases :: "string list" where
  "uiReducer_cases =
    [''TOGGE_TLHEME'', ''SET_THEME'', ''TOGGLE_DIRECTION'', ''SET_DIRECTION'', ''TOGGLE_SIDEBAR'',
     ''SET_LOADING'', ''SET_ERROR'']"

text \<open>
  The header's theme button: \<^verbatim>\<open>onClick={() => uiDispatch({ type: 'TOGGLE_THEME' })}\<close>
  (the same action in the monolithic \<^verbatim>\<open>Header\<close> and in the split-out one). The action
  object has no payload member.
\<close>

definition Header_toggleTheme :: "'v action" where
  "Header_toggleTheme = \<lparr>action_type = ''TOGGLE_THEME'', payload = PUndefined\<rparr>"

definition ui_example :: UIState where
  "ui_example = \<lparr>theme = ''light'', direction = ''ltr'', sidebarOpen = True, loading = False,
                 error = None\<rparr>"

section \<open>The preferences provider and the durable key-value store\<close>

text \<open>
  \<^verbatim>\<open>localStorage\<close> is a map from keys to strings: \<^verbatim>\<open>getItem\<close> returns \<^verbatim>\<open>null\<close> for a
  missing key, \<^verbatim>\<open>setItem\<close> stores. Writes are taken to succeed (the source has no
  \<^verbatim>\<open>try\<close> around them); the writes to \<^verbatim>\<open>document.documentElement\<close> are not part of the
  model.
\<close>

type_synonym storage = "string \<rightharpoonup> string"

definition getItem :: "storage \<Rightarrow> string \<Rightarrow> string option" where
  "getItem ls k = ls k"

definition setItem :: "storage \<Rightarrow> string \<Rightarrow> string \<Rightarrow> storage" where
  "setItem ls k v = ls(k \<mapsto> v)"

text \<open>
  JavaScript's \<^verbatim>\<open>v || d\<close> on a \<^verbatim>\<open>string | null\<close>: the falsy values are \<^verbatim>\<open>null\<close> and the
  empty string; every other string is truthy and is the result.
\<close>

definition or_default :: "string option \<Rightarrow> string \<Rightarrow> string" where
  "or_default v d = (case v of None \<Rightarrow> d | Some x \<Rightarrow> if x = [] then d else x)"

text \<open>The initial state passed to \<^verbatim>\<open>useReducer\<close> in \<^verbatim>\<open>UIProvider\<close>.\<close>

definition UIProvider_initial :: "storage \<Rightarrow> UIState" where
  "UIProvider_initial ls =
    \<lparr>theme = or_default (getItem ls ''theme'') ''light'',
     direction = or_default (getItem ls ''direction'') ''ltr'',
     sidebarOpen = True, loading = False, error = None\<rparr>"

text \<open>
  The two \<^verbatim>\<open>useEffect\<close> hooks: both run after the first render; after a later render each
  runs when its dependency (\<^verbatim>\<open>state.theme\<close>, \<^verbatim>\<open>state.direction\<close>) differs from the one
  of the previous render.
\<close>

definition UIProvider_mount :: "storage \<Rightarrow> UIState \<times> storage" where
  "UIProvider_mount ls =
    (let st = UIProvider_initial ls
     in (st, setItem (setItem ls ''theme'' (theme st)) ''direction'' (direction st)))"

definition UIProvider_effects :: "UIState \<Rightarrow> UIState \<Rightarrow> storage \<Rightarrow> storage" where
  "UIProvider_effects old new ls =
    (let ls1 = (if theme new \<noteq> theme old then setItem ls ''theme'' (theme new) else ls)
     in if direction new \<noteq> direction old then setItem ls1 ''direction'' (direction new) else ls1)"

definition UIProvider_dispatch :: "UIState \<times> storage \<Rightarrow> 'v action \<Rightarrow> js_error + UIState \<times> storage" where
  "UIProvider_dispatch c a =
    (case uiReducer (fst c) a of
       Inl e \<Rightarrow> Inl e
     | Inr st \<Rightarrow> Inr (st, UIProvider_effects (fst c) st (snd c)))"

fun UIProvider_run :: "UIState \<times> storage \<Rightarrow> 'v action list \<Rightarrow> js_error + UIState \<times> storage" where
  "UIProvider_run c [] = Inr c"
| "UIProvider_run c (a # as) =
     (case UIProvider_dispatch c a of Inl e \<Rightarrow> Inl e | Inr c' \<Rightarrow> UIProvider_run c' as)"

definition set_theme_action :: "string \<Rightarrow> 'v action" where
  "set_theme_action t = \<lparr>action_type = ''SET_THEME'', payload = PString t\<rparr>"

section \<open>The content-type builder's save handler\<close>

text \<open>
  \<^verbatim>\<open>Date.now().toString()\<close>: the clock reading is a non-negative integer number of
  milliseconds, printed in decimal without leading zeros.
\<close>

fun toString :: "nat \<Rightarrow> string" where
  "toString n =
    (if n < 10 then [char_of (48 + n)]
     else toString (n div 10) @ [char_of (48 + n mod 10)])"

declare toString.simps [simp del]

text \<open>The inverse reading of a decimal string, used to show that \<open>toString\<close> is injective.\<close>

definition fromString :: "string \<Rightarrow> nat" where
  "fromString cs = foldl (\<lambda>a c. 10 * a + (of_char c - 48)) 0 cs"

text \<open>
  The component state of \<^verbatim>\<open>ContentTypeBuilder\<close>: the three \<^verbatim>\<open>useState\<close> cells. When a
  schema is being edited the form was filled from it (\<^verbatim>\<open>setFormData(type)\<close>) and every later
  \<^verbatim>\<open>setFormData({ ...formData, ... })\<close> keeps its \<^verbatim>\<open>id\<close>, so in
  \<^verbatim>\<open>{ ...editingType, ...formData }\<close> the id is the one of \<^verbatim>\<open>editingType\<close>; when none is
  edited the form has no \<^verbatim>\<open>id\<close> member and \<^verbatim>\<open>{ id: Date.now().toString(), ...formData }\<close>
  keeps the generated one.
\<close>

record FormData =
  form_name :: string
  form_singularName :: string
  form_pluralName :: string
  form_fields :: "Field list"

record BuilderState =
  isModalOpen :: bool
  editingType :: "ContentType option"
  formData :: FormData

definition empty_form :: FormData where
  "empty_form = \<lparr>form_name = [], form_singularName = [], form_pluralName = [], form_fields = []\<rparr>"

definition handleSave ::
  "nat \<Rightarrow> BuilderState \<times> 'v AppState \<Rightarrow> js_error + BuilderState \<times> 'v AppState" where
  "handleSave now c =
    (let f = formData (fst c) in
     case (case editingType (fst c) of
             Some et \<Rightarrow>
               appReducer (snd c)
                 \<lparr>action_type = ''UPDATE_CONTENT_TYPE'',
                  payload = PContentType
                    (et\<lparr>ct_name := form_name f, singularName := form_singularName f,
                        pluralName := form_pluralName f, ct_fields := form_fields f\<rparr>)\<rparr>
           | None \<Rightarrow>
               appReducer (snd c)
                 \<lparr>action_type = ''ADD_CONTENT_TYPE'',
                  payload = PContentType
                    \<lparr>ct_id = toString now, ct_name = form_name f,
                     singularName = form_singularName f, pluralName = form_pluralName f,
                     ct_fields = form_fields f\<rparr>\<rparr>) of
       Inl e \<Rightarrow> Inl e
     | Inr s' \<Rightarrow>
         Inr (\<lparr>isModalOpen = False, editingType = None, formData = empty_form\<rparr>, s'))"

text \<open>
  A sequence of saves: before each one the operator fills the form (\<^verbatim>\<open>setFormData\<close>), then
  presses Save at the given clock reading.
\<close>

fun save_sequence ::
  "(nat \<times> FormData) list \<Rightarrow> BuilderState \<times> 'v AppState \<Rightarrow> js_error + BuilderState \<times> 'v AppState" where
  "save_sequence [] c = Inr c"
| "save_sequence (call # rest) c =
     (case handleSave (fst call) ((fst c)\<lparr>formData := snd call\<rparr>, snd c) of
        Inl e \<Rightarrow> Inl e
      | Inr c' \<Rightarrow> save_sequence rest c')"

section \<open>Example states\<close>

definition article_type :: ContentType where
  "article_type =
    \<lparr>ct_id = ''1'', ct_name = ''Article'', singularName = ''article'', pluralName = ''articles'',
     ct_fields =
       [\<lparr>field_id = ''1'', field_name = ''title'', field_type = FT_text, required = Some True,
         options = None, relation = None\<rparr>]\<rparr>"

definition product_type :: ContentType where
  "product_type =
    \<lparr>ct_id = ''2'', ct_name = ''Product'', singularName = ''product'', pluralName = ''products'',
     ct_fields =
       [\<lparr>field_id = ''1'', field_name = ''name'', field_type = FT_text, required = Some True,
         options = None, relation = None\<rparr>]\<rparr>"

definition draft_entry :: "string ContentEntry" where
  "draft_entry =
    \<lparr>entry_id = ''2'', contentType = ''article'', status = draft,
     data = [''title'' \<mapsto> ''Draft Article'', ''content'' \<mapsto> ''Work in progress''],
     createdAt = ''2024-01-01T00:00:00.000Z'', updatedAt = ''2024-01-01T00:00:00.000Z''\<rparr>"

definition app_example :: "string AppState" where
  "app_example =
    \<lparr>user = None, isAuthenticated = False, contentTypes = [article_type, product_type],
     entries = [draft_entry]\<rparr>"

definition builder_example :: BuilderState where
  "builder_example = \<lparr>isModalOpen = True, editingType = None, formData = empty_form\<rparr>"

text \<open>A full-entry payload for entry \<^verbatim>\<open>'2'\<close> whose data mapping has the one key \<^verbatim>\<open>title\<close>.\<close>

definition title_update :: "string ContentEntry" where
  "title_update = draft_entry\<lparr>data := [''title'' \<mapsto> ''New title'']\<rparr>"

text \<open>
  A payload for entry \<^verbatim>\<open>'2'\<close> that names the entry, sets \<^verbatim>\<open>status: 'published'\<close> and a new
  \<^verbatim>\<open>updatedAt\<close>, repeats \<^verbatim>\<open>contentType\<close> and \<^verbatim>\<open>createdAt\<close>, and carries an empty data
  mapping.
\<close>

definition publish_update :: "string ContentEntry" where
  "publish_update =
    \<lparr>entry_id = ''2'', contentType = ''article'', status = published, data = Map.empty,
     createdAt = ''2024-01-01T00:00:00.000Z'', updatedAt = ''2024-06-01T00:00:00.000Z''\<rparr>"

definition absent_entry :: "string ContentEntry" where
  "absent_entry = draft_entry\<lparr>entry_id := ''nonexistent-id''\<rparr>"

definition ghost_type :: ContentType where
  "ghost_type =
    \<lparr>ct_id = ''nonexistent-id'', ct_name = ''Page'', singularName = ''page'',
     pluralName = ''pages'', ct_fields = []\<rparr>"

text \<open>
  An \<^verbatim>\<open>ADD_ENTRY\<close> payload: published, its id already in use, updated after it was created.
\<close>

definition published_entry :: "string ContentEntry" where
  "published_entry =
    \<lparr>entry_id = ''2'', contentType = ''article'', status = published,
     data = [''title'' \<mapsto> ''Hello''],
     createdAt = ''2024-01-01T00:00:00.000Z'', updatedAt = ''2024-06-01T00:00:00.000Z''\<rparr>"

definition page_form :: FormData where
  "page_form = \<lparr>form_name = ''Page'', form_singularName = ''page'', form_pluralName = ''pages'',
                form_fields = []\<rparr>"

definition event_form :: FormData where
  "event_form = \<lparr>form_name = ''Event'', form_singularName = ''event'',
                 form_pluralName = ''events'', form_fields = []\<rparr>"

definition page_type :: "nat \<Rightarrow> ContentType" where
  "page_type now =
    \<lparr>ct_id = toString now, ct_name = ''Page'', singularName = ''page'', pluralName = ''pages'',
     ct_fields = []\<rparr>"

definition event_type :: "nat \<Rightarrow> ContentType" where
  "event_type now =
    \<lparr>ct_id = toString now, ct_name = ''Event'', singularName = ''event'',
     pluralName = ''events'', ct_fields = []\<rparr>"

definition stale_storage :: storage where
  "stale_storage = [''theme'' \<mapsto> ''blue'', ''direction'' \<mapsto> ''up'']"

text \<open>The durable store agrees with the in-memory theme and direction.\<close>

definition persisted :: "UIState \<times> storage \<Rightarrow> bool" where
  "persisted c \<longleftrightarrow>
     getItem (snd c) ''theme'' = Some (theme (fst c)) \<and>
     getItem (snd c) ''direction'' = Some (direction (fst c))"

section \<open>Auxiliary facts\<close>

subsection \<open>Decimal printing is injective\<close>

lemma fromString_snoc: "fromString (cs @ [c]) = 10 * fromString cs + (of_char c - 48)"
  by (simp add: fromString_def)

lemma fromString_toString: "fromString (toString n) = n"
proof (induction n rule: toString.induct)
  case (1 n)
  show ?case
  proof (cases "n < 10")
    case True
    then show ?thesis by (simp add: toString.simps [of n] fromString_def)
  next
    case False
    with 1 have ih: "fromString (toString (n div 10)) = n div 10" by simp
    have "n mod 10 < 10" by simp
    then have d: "of_char (char_of (48 + n mod 10) :: char) = 48 + n mod 10"
      by simp
    from False have "toString n = toString (n div 10) @ [char_of (48 + n mod 10)]"
      by (simp add: toString.simps [of n])
    then show ?thesis by (simp add: fromString_snoc ih d)
  qed
qed

lemma toString_inj: "toString m = toString n \<Longrightarrow> m = n"
  by (metis fromString_toString)

lemma toString_eq_fromString: "toString n = cs \<Longrightarrow> n = fromString cs"
  using fromString_toString by metis

subsection \<open>Replacing and removing by id\<close>

lemma map_replace_absent: "k \<notin> f ` set xs \<Longrightarrow> map (\<lambda>x. if f x = k then p else x) xs = xs"
  by (induction xs) auto

lemma filter_absent: "k \<notin> f ` set xs \<Longrightarrow> filter (\<lambda>x. f x \<noteq> k) xs = xs"
  by (induction xs) auto

lemma update_entry_result:
  "appReducer s \<lparr>action_type = ''UPDATE_ENTRY'', payload = PEntry p\<rparr> =
     Inr (s\<lparr>entries := map (\<lambda>e. if entry_id e = entry_id p then p else e) (entries s)\<rparr>)"
  by (simp add: appReducer_def)

subsection \<open>Saving a new content type\<close>

lemma handleSave_new:
  "editingType (fst c) = None \<Longrightarrow>
   handleSave now c =
     Inr (\<lparr>isModalOpen = False, editingType = None, formData = empty_form\<rparr>,
          (snd c)\<lparr>contentTypes := contentTypes (snd c) @
            [\<lparr>ct_id = toString now, ct_name = form_name (formData (fst c)),
              singularName = form_singularName (formData (fst c)),
              pluralName = form_pluralName (formData (fst c)),
              ct_fields = form_fields (formData (fst c))\<rparr>]\<rparr>)"
  by (simp add: handleSave_def appReducer_def Let_def)

lemma save_sequence_ids:
  "editingType (fst c) = None \<Longrightarrow>
   \<exists>c'. save_sequence calls c = Inr c' \<and>
        map ct_id (contentTypes (snd c')) =
          map ct_id (contentTypes (snd c)) @ map (\<lambda>call. toString (fst call)) calls \<and>
        take (length (contentTypes (snd c))) (contentTypes (snd c')) = contentTypes (snd c)"
proof (induction calls arbitrary: c)
  case Nil
  then show ?case by simp
next
  case (Cons call rest)
  let ?c1 = "((fst c)\<lparr>formData := snd call\<rparr>, snd c)"
  have e: "editingType (fst ?c1) = None" using Cons.prems by simp
  obtain c2 where c2: "handleSave (fst call) ?c1 = Inr c2"
    and ed2: "editingType (fst c2) = None"
    and cts2: "contentTypes (snd c2) = contentTypes (snd c) @
        [\<lparr>ct_id = toString (fst call), ct_name = form_name (snd call),
              singularName = form_singularName (snd call),
              pluralName = form_pluralName (snd call),
              ct_fields = form_fields (snd call)\<rparr>]"
    using handleSave_new [OF e, of "fst call"] by simp
  from Cons.IH [OF ed2] obtain c' where
    r: "save_sequence rest c2 = Inr c'"
    and ids: "map ct_id (contentTypes (snd c')) =
          map ct_id (contentTypes (snd c2)) @ map (\<lambda>call. toString (fst call)) rest"
    and tk: "take (length (contentTypes (snd c2))) (contentTypes (snd c')) = contentTypes (snd c2)"
    by blast
  have "save_sequence (call # rest) c = Inr c'" using c2 r by simp
  moreover have "map ct_id (contentTypes (snd c')) =
          map ct_id (contentTypes (snd c)) @ map (\<lambda>call. toString (fst call)) (call # rest)"
    using ids cts2 by simp
  moreover have "take (length (contentTypes (snd c))) (contentTypes (snd c')) = contentTypes (snd c)"
  proof -
    have "take (length (contentTypes (snd c)))
            (take (length (contentTypes (snd c2))) (contentTypes (snd c')))
        = take (length (contentTypes (snd c))) (contentTypes (snd c2))" using tk by simp
    then show ?thesis using cts2 by (simp add: min_def)
  qed
  ultimately show ?case by blast
qed

subsection \<open>The durable store follows the in-memory preferences\<close>

lemma mount_persisted: "persisted (UIProvider_mount ls)"
  by (simp add: persisted_def UIProvider_mount_def Let_def getItem_def setItem_def)

lemma effects_persisted:
  "persisted (old, ls) \<Longrightarrow> persisted (new, UIProvider_effects old new ls)"
  by (auto simp add: persisted_def UIProvider_effects_def Let_def getItem_def setItem_def)

lemma dispatch_persisted:
  "persisted c \<Longrightarrow> UIProvider_dispatch c a = Inr c' \<Longrightarrow> persisted c'"
  using effects_persisted [of "fst c" "snd c"]
  by (auto simp add: UIProvider_dispatch_def split: sum.splits)

lemma run_persisted:
  "persisted c \<Longrightarrow> UIProvider_run c as = Inr c' \<Longrightarrow> persisted c'"
proof (induction as arbitrary: c)
  case Nil
  then show ?case by simp
next
  case (Cons a as)
  then show ?case by (auto split: sum.splits dest: dispatch_persisted)
qed

lemma mount_theme:
  "getItem ls ''theme'' = Some t \<Longrightarrow> t \<noteq> [] \<Longrightarrow> theme (fst (UIProvider_mount ls)) = t"
  by (simp add: UIProvider_mount_def UIProvider_initial_def Let_def or_default_def)

section \<open>Theorems\<close>

subsection \<open>The theme toggle\<close>

text \<open>
  C1 (evaluation of the code at the header's action). The header dispatches the action of type
  \<^verbatim>\<open>'TOGGLE_THEME'\<close>; the reducer's label is \<^verbatim>\<open>'TOGGE_TLHEME'\<close>, so the action reaches the
  \<^verbatim>\<open>default\<close> branch and the state, theme included, is returned as it was.
\<close>

theorem header_toggle_theme_unchanged:
  "uiReducer ui_example (Header_toggleTheme :: string action) = Inr ui_example \<and>
   theme ui_example = ''light''"
  by (simp add: uiReducer_def Header_toggleTheme_def ui_example_def)

subsection \<open>Updating an entry\<close>

text \<open>
  The data mapping after \<^verbatim>\<open>UPDATE_ENTRY\<close> is the payload's, not the merge of the stored one
  with it: the stored entry has the keys \<^verbatim>\<open>title\<close> and \<^verbatim>\<open>content\<close>, the payload only
  \<^verbatim>\<open>title\<close>, and \<^verbatim>\<open>content\<close> is gone afterwards. The \<^verbatim>\<open>updatedAt\<close> of the result is the
  payload's (here the old one), and an update of an id that no entry has returns the state,
  as a successful one does.
\<close>

theorem update_entry_not_merged:
  "appReducer app_example \<lparr>action_type = ''UPDATE_ENTRY'', payload = PEntry title_update\<rparr>
     = Inr (app_example\<lparr>entries := [title_update]\<rparr>) \<and>
   data draft_entry ''content'' = Some ''Work in progress'' \<and>
   data title_update ''content'' = None \<and>
   data title_update \<noteq> data draft_entry ++ data title_update \<and>
   updatedAt title_update = updatedAt draft_entry \<and>
   appReducer app_example \<lparr>action_type = ''UPDATE_ENTRY'', payload = PEntry absent_entry\<rparr>
     = Inr app_example"
proof -
  have "(data draft_entry ++ data title_update) ''content'' \<noteq> data title_update ''content''"
    by (simp add: draft_entry_def title_update_def)
  then have "data title_update \<noteq> data draft_entry ++ data title_update" by metis
  then show ?thesis
    by (simp add: appReducer_def app_example_def title_update_def draft_entry_def absent_entry_def)
qed

text \<open>
  C2 (amended). \<^verbatim>\<open>UPDATE_ENTRY\<close> replaces every entry whose id is the payload's id by the
  payload as a whole, so that entry's data mapping and \<^verbatim>\<open>updatedAt\<close> are the payload's; the
  other entries, the collection's length and the rest of the state are unchanged; when no
  entry has the payload's id the result is the unchanged state, and it is an ordinary state,
  not an error.
\<close>

theorem update_entry_replaces:
  "\<exists>s'. appReducer s \<lparr>action_type = ''UPDATE_ENTRY'', payload = PEntry p\<rparr> = Inr s' \<and>
     length (entries s') = length (entries s) \<and>
     (\<forall>i < length (entries s).
        entries s' ! i = (if entry_id (entries s ! i) = entry_id p then p else entries s ! i)) \<and>
     (entry_id p \<notin> entry_id ` set (entries s) \<longrightarrow> s' = s) \<and>
     user s' = user s \<and> isAuthenticated s' = isAuthenticated s \<and>
     contentTypes s' = contentTypes s"
  by (simp add: update_entry_result map_replace_absent)

theorem update_entry_replaces_witness:
  "(0::nat) < length (entries app_example) \<and>
   entry_id (entries app_example ! 0) = entry_id title_update \<and>
   entry_id absent_entry \<notin> entry_id ` set (entries app_example) \<and>
   (\<exists>s'. appReducer app_example \<lparr>action_type = ''UPDATE_ENTRY'', payload = PEntry title_update\<rparr>
            = Inr s' \<and> entries s' ! 0 = title_update) \<and>
   appReducer app_example \<lparr>action_type = ''UPDATE_ENTRY'', payload = PEntry absent_entry\<rparr>
     = Inr app_example"
proof -
  have h1: "(0::nat) < length (entries app_example)" by (simp add: app_example_def)
  have h2: "entry_id (entries app_example ! 0) = entry_id title_update"
    by (simp add: app_example_def title_update_def)
  have h3: "entry_id absent_entry \<notin> entry_id ` set (entries app_example)"
    by (simp add: app_example_def absent_entry_def draft_entry_def)
  from update_entry_replaces [of app_example title_update] h1 h2
  have a: "\<exists>s'. appReducer app_example
                  \<lparr>action_type = ''UPDATE_ENTRY'', payload = PEntry title_update\<rparr> = Inr s' \<and>
                entries s' ! 0 = title_update"
    by auto
  from update_entry_replaces [of app_example absent_entry] h3
  have b: "appReducer app_example \<lparr>action_type = ''UPDATE_ENTRY'', payload = PEntry absent_entry\<rparr>
     = Inr app_example" by auto
  show ?thesis using h1 h2 h3 a b by blast
qed

text \<open>
  The reducer keeps nothing of the stored entry: a payload for the draft entry that carries the
  id, \<^verbatim>\<open>status: 'published'\<close> and a fresh \<^verbatim>\<open>updatedAt\<close>, but not the stored data mapping,
  leaves the entry without its \<^verbatim>\<open>title\<close>.
\<close>

theorem publish_update_drops_data:
  "status (entries app_example ! 0) = draft \<and>
   entry_id publish_update = entry_id (entries app_example ! 0) \<and>
   status publish_update = published \<and>
   appReducer app_example \<lparr>action_type = ''UPDATE_ENTRY'', payload = PEntry publish_update\<rparr>
     = Inr (app_example\<lparr>entries := [publish_update]\<rparr>) \<and>
   data publish_update ''title'' = None \<and>
   data (entries app_example ! 0) ''title'' = Some ''Draft Article'' \<and>
   data publish_update \<noteq> data (entries app_example ! 0)"
proof -
  have "data publish_update ''title'' \<noteq> data (entries app_example ! 0) ''title''"
    by (simp add: app_example_def publish_update_def draft_entry_def)
  then have "data publish_update \<noteq> data (entries app_example ! 0)" by metis
  then show ?thesis
    by (simp add: appReducer_def app_example_def publish_update_def draft_entry_def)
qed

text \<open>
  C3 (amended). For every draft entry of the collection, \<^verbatim>\<open>UPDATE_ENTRY\<close> with a payload
  equal to that entry except for \<^verbatim>\<open>status: 'published'\<close> and an \<^verbatim>\<open>updatedAt\<close> chosen by the
  caller yields a collection of the same length in which the entry has the new status and
  that \<^verbatim>\<open>updatedAt\<close>, and the id, content type, data mapping and \<^verbatim>\<open>createdAt\<close> it had;
  entries with another id and the rest of the state are unchanged.
\<close>

theorem publish_full_payload_frame:
  assumes "i < length (entries s)" and "status (entries s ! i) = draft"
  shows "\<exists>s'. appReducer s \<lparr>action_type = ''UPDATE_ENTRY'',
                  payload = PEntry ((entries s ! i)\<lparr>status := published, updatedAt := t\<rparr>)\<rparr>
                = Inr s' \<and>
           length (entries s') = length (entries s) \<and>
           status (entries s' ! i) = published \<and>
           updatedAt (entries s' ! i) = t \<and>
           entry_id (entries s' ! i) = entry_id (entries s ! i) \<and>
           contentType (entries s' ! i) = contentType (entries s ! i) \<and>
           data (entries s' ! i) = data (entries s ! i) \<and>
           createdAt (entries s' ! i) = createdAt (entries s ! i) \<and>
           (\<forall>j < length (entries s).
              entry_id (entries s ! j) \<noteq> entry_id (entries s ! i) \<longrightarrow>
              entries s' ! j = entries s ! j) \<and>
           user s' = user s \<and> isAuthenticated s' = isAuthenticated s \<and>
           contentTypes s' = contentTypes s"
  using assms by (simp add: update_entry_result)

theorem publish_full_payload_frame_witness:
  "(0::nat) < length (entries app_example) \<and> status (entries app_example ! 0) = draft \<and>
   (\<exists>s'. appReducer app_example \<lparr>action_type = ''UPDATE_ENTRY'',
            payload = PEntry (draft_entry\<lparr>status := published,
                                updatedAt := ''2024-06-01T00:00:00.000Z''\<rparr>)\<rparr> = Inr s' \<and>
          status (entries s' ! 0) = published \<and>
          data (entries s' ! 0) = data draft_entry \<and>
          createdAt (entries s' ! 0) = createdAt draft_entry)"
proof -
  have h1: "(0::nat) < length (entries app_example)" by (simp add: app_example_def)
  have h2: "status (entries app_example ! 0) = draft"
    by (simp add: app_example_def draft_entry_def)
  have e: "entries app_example ! 0 = draft_entry" by (simp add: app_example_def)
  show ?thesis
    using publish_full_payload_frame [OF h1 h2, of "''2024-06-01T00:00:00.000Z''"] h1 h2
    unfolding e by auto
qed

subsection \<open>Updating and deleting a schema\<close>

text \<open>
  \<^verbatim>\<open>UPDATE_CONTENT_TYPE\<close> for an id that no schema has returns the state, exactly as the
  update of a present schema by itself does: the result carries no tag that tells the two
  apart.
\<close>

theorem update_schema_no_tag:
  "''nonexistent-id'' \<notin> ct_id ` set (contentTypes app_example) \<and>
   ct_id ghost_type = ''nonexistent-id'' \<and>
   ct_id article_type \<in> ct_id ` set (contentTypes app_example) \<and>
   appReducer app_example
     \<lparr>action_type = ''UPDATE_CONTENT_TYPE'', payload = PContentType ghost_type\<rparr>
     = Inr app_example \<and>
   appReducer app_example
     \<lparr>action_type = ''UPDATE_CONTENT_TYPE'', payload = PContentType article_type\<rparr>
     = Inr app_example"
  by (simp add: appReducer_def app_example_def ghost_type_def article_type_def product_type_def)

text \<open>
  C4 (amended). For every schema collection and every replacement whose id is not in it,
  \<^verbatim>\<open>UPDATE_CONTENT_TYPE\<close> returns the state unchanged, the schema collection with it: same
  length, same contents. The result is an ordinary state.
\<close>

theorem update_schema_absent_unchanged:
  assumes "ct_id p \<notin> ct_id ` set (contentTypes s)"
  shows "appReducer s \<lparr>action_type = ''UPDATE_CONTENT_TYPE'', payload = PContentType p\<rparr> = Inr s"
  using assms by (simp add: appReducer_def map_replace_absent)

theorem update_schema_absent_unchanged_witness:
  "ct_id ghost_type \<notin> ct_id ` set (contentTypes app_example) \<and>
   appReducer app_example
     \<lparr>action_type = ''UPDATE_CONTENT_TYPE'', payload = PContentType ghost_type\<rparr>
     = Inr app_example"
proof -
  have h: "ct_id ghost_type \<notin> ct_id ` set (contentTypes app_example)"
    by (simp add: app_example_def ghost_type_def article_type_def product_type_def)
  show ?thesis using h update_schema_absent_unchanged [OF h] by simp
qed

text \<open>
  C5. \<^verbatim>\<open>DELETE_CONTENT_TYPE\<close> is idempotent: for every state and every id the first
  deletion succeeds, and a second deletion of the same id returns the state the first one
  produced; no schema with that id is left; when the id was not in the collection the first
  deletion already returns the state it was given, and it is not an error.
\<close>

theorem delete_schema_idempotent:
  "\<exists>s1. appReducer s \<lparr>action_type = ''DELETE_CONTENT_TYPE'', payload = PString i\<rparr> = Inr s1 \<and>
         appReducer s1 \<lparr>action_type = ''DELETE_CONTENT_TYPE'', payload = PString i\<rparr> = Inr s1 \<and>
         i \<notin> ct_id ` set (contentTypes s1) \<and>
         (i \<notin> ct_id ` set (contentTypes s) \<longrightarrow> s1 = s)"
  by (auto simp add: appReducer_def filter_absent)

theorem delete_schema_idempotent_witness:
  "ct_id ghost_type \<notin> ct_id ` set (contentTypes app_example) \<and>
   appReducer app_example
     \<lparr>action_type = ''DELETE_CONTENT_TYPE'', payload = PString (ct_id ghost_type)\<rparr>
     = Inr app_example"
proof -
  have h: "ct_id ghost_type \<notin> ct_id ` set (contentTypes app_example)"
    by (simp add: app_example_def ghost_type_def article_type_def product_type_def)
  show ?thesis using h delete_schema_idempotent [of app_example "ct_id ghost_type"] by auto
qed

subsection \<open>Defining schemas\<close>

text \<open>
  Two saves at the same clock reading give two schemas with the same id: the id is the printed
  clock reading and nothing else.
\<close>

theorem same_millisecond_duplicate_id:
  "save_sequence [(1700000000000, page_form), (1700000000000, event_form)]
     (builder_example, app_example)
     = Inr (\<lparr>isModalOpen = False, editingType = None, formData = empty_form\<rparr>,
            app_example\<lparr>contentTypes :=
              [article_type, product_type, page_type 1700000000000, event_type 1700000000000]\<rparr>) \<and>
   ct_id (page_type 1700000000000) = ct_id (event_type 1700000000000)"
  by (simp add: handleSave_def appReducer_def builder_example_def app_example_def
        page_form_def event_form_def page_type_def event_type_def)

text \<open>
  C6 (amended). For every sequence of saves of new content types (no schema being edited),
  starting from any state, every save succeeds and appends exactly one schema: the collection
  grows by the number of saves, the schemas that were there stay in front, and the id of each
  new schema is the decimal print of the clock reading of its save. When the clock readings
  of the saves are pairwise distinct and none of them prints to an id already in the
  collection, the new ids are pairwise distinct and distinct from every id that was there.
\<close>

theorem save_sequence_unique_ids:
  assumes "editingType (fst c) = None"
  shows "\<exists>c'. save_sequence calls c = Inr c' \<and>
           length (contentTypes (snd c')) = length (contentTypes (snd c)) + length calls \<and>
           take (length (contentTypes (snd c))) (contentTypes (snd c')) = contentTypes (snd c) \<and>
           map ct_id (drop (length (contentTypes (snd c))) (contentTypes (snd c')))
             = map (\<lambda>call. toString (fst call)) calls \<and>
           (distinct (map fst calls) \<and>
            (\<forall>call \<in> set calls. toString (fst call) \<notin> ct_id ` set (contentTypes (snd c)))
            \<longrightarrow> distinct (map ct_id (drop (length (contentTypes (snd c))) (contentTypes (snd c')))) \<and>
                ct_id ` set (drop (length (contentTypes (snd c))) (contentTypes (snd c')))
                  \<inter> ct_id ` set (contentTypes (snd c)) = {})"
proof -
  from save_sequence_ids [OF assms, of calls] obtain c' where
    r: "save_sequence calls c = Inr c'"
    and ids: "map ct_id (contentTypes (snd c')) =
          map ct_id (contentTypes (snd c)) @ map (\<lambda>call. toString (fst call)) calls"
    and tk: "take (length (contentTypes (snd c))) (contentTypes (snd c')) = contentTypes (snd c)"
    by blast
  let ?n = "length (contentTypes (snd c))"
  have len: "length (contentTypes (snd c')) = ?n + length calls"
    using arg_cong [OF ids, of length] by simp
  have new: "map ct_id (drop ?n (contentTypes (snd c'))) = map (\<lambda>call. toString (fst call)) calls"
    using arg_cong [OF ids, of "drop ?n"] by (simp add: drop_map)
  have d: "distinct (map (\<lambda>call. toString (fst call)) calls)" if "distinct (map fst calls)"
  proof -
    have "distinct (map toString (map fst calls))"
      using that by (subst distinct_map) (auto simp: inj_on_def dest: toString_inj)
    then show ?thesis by (simp add: comp_def)
  qed
  have dj: "ct_id ` set (drop ?n (contentTypes (snd c'))) \<inter> ct_id ` set (contentTypes (snd c)) = {}"
    if "\<forall>call \<in> set calls. toString (fst call) \<notin> ct_id ` set (contentTypes (snd c))"
  proof -
    have "ct_id ` set (drop ?n (contentTypes (snd c')))
            = set (map ct_id (drop ?n (contentTypes (snd c'))))"
      by simp
    also have "\<dots> = (\<lambda>call. toString (fst call)) ` set calls" unfolding new by simp
    finally have eq: "ct_id ` set (drop ?n (contentTypes (snd c')))
                        = (\<lambda>call. toString (fst call)) ` set calls" .
    show ?thesis unfolding eq using that by auto
  qed
  show ?thesis using r len tk new d dj by auto
qed

theorem save_sequence_unique_ids_witness:
  "editingType (fst (builder_example, app_example)) = None \<and>
   distinct (map fst [(1700000000000::nat, page_form), (1700000000001, event_form)]) \<and>
   toString 1700000000000 \<notin> ct_id ` set (contentTypes (snd (builder_example, app_example))) \<and>
   toString 1700000000001 \<notin> ct_id ` set (contentTypes (snd (builder_example, app_example))) \<and>
   (\<exists>c'. save_sequence [(1700000000000, page_form), (1700000000001, event_form)]
            (builder_example, app_example) = Inr c' \<and>
         length (contentTypes (snd c')) = 4 \<and>
         distinct (map ct_id (drop 2 (contentTypes (snd c')))))"
proof -
  let ?calls = "[(1700000000000::nat, page_form), (1700000000001, event_form)]"
  let ?c = "(builder_example, app_example)"
  have h1: "editingType (fst ?c) = None" by (simp add: builder_example_def)
  have h2: "distinct (map fst ?calls)" by simp
  have f1: "fromString ''1'' = 1" and f2: "fromString ''2'' = 2"
    by (simp_all add: fromString_def)
  have h3: "\<forall>call \<in> set ?calls. toString (fst call) \<notin> ct_id ` set (contentTypes (snd ?c))"
    using toString_eq_fromString [of 1700000000000 "''1''"]
      toString_eq_fromString [of 1700000000000 "''2''"]
      toString_eq_fromString [of 1700000000001 "''1''"]
      toString_eq_fromString [of 1700000000001 "''2''"]
    by (auto simp add: app_example_def article_type_def product_type_def f1 f2)
  have n: "length (contentTypes (snd ?c)) = 2" by (simp add: app_example_def)
  from save_sequence_unique_ids [OF h1, of ?calls] h2 h3
  have "\<exists>c'. save_sequence ?calls ?c = Inr c' \<and>
         length (contentTypes (snd c')) = length (contentTypes (snd ?c)) + length ?calls \<and>
         distinct (map ct_id (drop (length (contentTypes (snd ?c))) (contentTypes (snd c'))))"
    by blast
  then have "\<exists>c'. save_sequence ?calls ?c = Inr c' \<and>
         length (contentTypes (snd c')) = 4 \<and>
         distinct (map ct_id (drop 2 (contentTypes (snd c'))))"
    unfolding n by simp
  then show ?thesis using h1 h2 h3 by simp
qed

subsection \<open>Creating an entry\<close>

text \<open>
  \<^verbatim>\<open>ADD_ENTRY\<close> stores what it is given: a payload that is published, whose id is already in
  use and whose \<^verbatim>\<open>createdAt\<close> and \<^verbatim>\<open>updatedAt\<close> differ is appended as it is.
\<close>

theorem add_entry_verbatim_example:
  "appReducer app_example \<lparr>action_type = ''ADD_ENTRY'', payload = PEntry published_entry\<rparr>
     = Inr (app_example\<lparr>entries := [draft_entry, published_entry]\<rparr>) \<and>
   status published_entry \<noteq> draft \<and>
   createdAt published_entry \<noteq> updatedAt published_entry \<and>
   entry_id published_entry = entry_id draft_entry"
  by (simp add: appReducer_def app_example_def published_entry_def draft_entry_def)

text \<open>
  C7 (amended). For every state and every entry payload, \<^verbatim>\<open>ADD_ENTRY\<close> appends the payload,
  unchanged, as the last element of the entry collection: the collection grows by one, the
  earlier entries and the rest of the state stay. Id, status and timestamps of the new entry
  are the payload's.
\<close>

theorem add_entry_appends_payload:
  "\<exists>s'. appReducer s \<lparr>action_type = ''ADD_ENTRY'', payload = PEntry p\<rparr> = Inr s' \<and>
         entries s' = entries s @ [p] \<and>
         length (entries s') = length (entries s) + 1 \<and>
         last (entries s') = p \<and>
         user s' = user s \<and> isAuthenticated s' = isAuthenticated s \<and>
         contentTypes s' = contentTypes s"
  by (simp add: appReducer_def)

subsection \<open>Preferences at startup and their persistence\<close>

text \<open>
  A persisted value that is neither of the two enumerated ones is not replaced by the default:
  with \<^verbatim>\<open>'blue'\<close> under \<^verbatim>\<open>theme\<close> and \<^verbatim>\<open>'up'\<close> under \<^verbatim>\<open>direction\<close> the initial snapshot has
  theme \<^verbatim>\<open>'blue'\<close> and direction \<^verbatim>\<open>'up'\<close>.
\<close>

theorem malformed_theme_kept:
  "getItem stale_storage ''theme'' = Some ''blue'' \<and>
   getItem stale_storage ''direction'' = Some ''up'' \<and>
   theme (UIProvider_initial stale_storage) = ''blue'' \<and>
   direction (UIProvider_initial stale_storage) = ''up'' \<and>
   theme (UIProvider_initial stale_storage) \<noteq> ''light'' \<and>
   theme (UIProvider_initial stale_storage) \<noteq> ''dark'' \<and>
   direction (UIProvider_initial stale_storage) \<noteq> ''ltr'' \<and>
   direction (UIProvider_initial stale_storage) \<noteq> ''rtl''"
  by (simp add: UIProvider_initial_def getItem_def stale_storage_def or_default_def)

text \<open>
  C8 (amended). For every content of the durable store the initial snapshot is defined, with
  the sidebar open, not loading and no error. An absent or empty value under \<^verbatim>\<open>theme\<close>
  yields \<^verbatim>\<open>'light'\<close>, an absent or empty value under \<^verbatim>\<open>direction\<close> yields \<^verbatim>\<open>'ltr'\<close>; every
  other persisted string becomes the initial theme (direction) as it is. Hence the two fields
  are within their enumerations whenever the persisted value is absent, empty or one of the
  two enumerated values.
\<close>

theorem initial_preferences_fallback:
  "(getItem ls ''theme'' \<in> {None, Some []} \<longrightarrow> theme (UIProvider_initial ls) = ''light'') \<and>
   (getItem ls ''direction'' \<in> {None, Some []} \<longrightarrow>
      direction (UIProvider_initial ls) = ''ltr'') \<and>
   (\<forall>v. getItem ls ''theme'' = Some v \<and> v \<noteq> [] \<longrightarrow> theme (UIProvider_initial ls) = v) \<and>
   (\<forall>v. getItem ls ''direction'' = Some v \<and> v \<noteq> [] \<longrightarrow>
      direction (UIProvider_initial ls) = v) \<and>
   (getItem ls ''theme'' \<in> {None, Some [], Some ''light'', Some ''dark''}
      \<longrightarrow> theme (UIProvider_initial ls) \<in> {''light'', ''dark''}) \<and>
   (getItem ls ''direction'' \<in> {None, Some [], Some ''ltr'', Some ''rtl''}
      \<longrightarrow> direction (UIProvider_initial ls) \<in> {''ltr'', ''rtl''}) \<and>
   sidebarOpen (UIProvider_initial ls) \<and> \<not> loading (UIProvider_initial ls) \<and>
   error (UIProvider_initial ls) = None"
  by (auto simp add: UIProvider_initial_def or_default_def)

theorem initial_preferences_fallback_witness:
  "getItem Map.empty ''theme'' \<in> {None, Some []} \<and>
   getItem Map.empty ''direction'' \<in> {None, Some []} \<and>
   theme (UIProvider_initial Map.empty) = ''light'' \<and>
   direction (UIProvider_initial Map.empty) = ''ltr'' \<and>
   getItem [''theme'' \<mapsto> ''dark'', ''direction'' \<mapsto> ''rtl''] ''theme'' = Some ''dark'' \<and>
   getItem [''theme'' \<mapsto> ''dark'', ''direction'' \<mapsto> ''rtl''] ''direction'' = Some ''rtl'' \<and>
   theme (UIProvider_initial [''theme'' \<mapsto> ''dark'', ''direction'' \<mapsto> ''rtl'']) = ''dark'' \<and>
   direction (UIProvider_initial [''theme'' \<mapsto> ''dark'', ''direction'' \<mapsto> ''rtl'']) = ''rtl''"
proof -
  let ?ls = "[''theme'' \<mapsto> ''dark'', ''direction'' \<mapsto> ''rtl''] :: storage"
  have a1: "getItem Map.empty ''theme'' \<in> {None, Some []}"
    and a2: "getItem Map.empty ''direction'' \<in> {None, Some []}"
    by (simp_all add: getItem_def)
  have b1: "getItem ?ls ''theme'' = Some ''dark''"
    and b2: "getItem ?ls ''direction'' = Some ''rtl''"
    by (simp_all add: getItem_def)
  have n: "''dark'' \<noteq> []" "''rtl'' \<noteq> []" by simp_all
  from initial_preferences_fallback [of Map.empty] a1 a2
  have e: "theme (UIProvider_initial Map.empty) = ''light''"
          "direction (UIProvider_initial Map.empty) = ''ltr''" by blast+
  from initial_preferences_fallback [of ?ls] b1 b2 n
  have d: "theme (UIProvider_initial ?ls) = ''dark''"
          "direction (UIProvider_initial ?ls) = ''rtl''" by blast+
  show ?thesis using a1 a2 b1 b2 e d by blast
qed

text \<open>
  C9. Theme persistence round-trips: from the provider mounted on any durable store and after
  any sequence of dispatched actions, setting the theme to \<^verbatim>\<open>'dark'\<close> succeeds, the in-memory
  theme is \<^verbatim>\<open>'dark'\<close>, the slot \<^verbatim>\<open>theme\<close> of the durable store then holds \<^verbatim>\<open>'dark'\<close>, and
  the initial snapshot of a provider started from that store has theme \<^verbatim>\<open>'dark'\<close>.
\<close>

theorem theme_dark_roundtrip:
  assumes "UIProvider_run (UIProvider_mount ls0) (as :: 'v action list) = Inr c"
  shows "\<exists>st ls. UIProvider_dispatch c (set_theme_action ''dark'' :: 'v action) = Inr (st, ls) \<and>
           theme st = ''dark'' \<and>
           getItem ls ''theme'' = Some ''dark'' \<and>
           theme (UIProvider_initial ls) = ''dark'' \<and>
           theme (fst (UIProvider_mount ls)) = ''dark''"
proof -
  have p: "persisted c" using run_persisted [OF mount_persisted assms] .
  obtain st ls
    where d: "UIProvider_dispatch c (set_theme_action ''dark'' :: 'v action) = Inr (st, ls)"
      and st: "st = (fst c)\<lparr>theme := ''dark''\<rparr>"
    by (simp add: UIProvider_dispatch_def uiReducer_def set_theme_action_def)
  from dispatch_persisted [OF p d] have "persisted (st, ls)" .
  then have g: "getItem ls ''theme'' = Some ''dark''" using st by (simp add: persisted_def)
  then have m: "theme (fst (UIProvider_mount ls)) = ''dark''" by (rule mount_theme) simp
  from g have i: "theme (UIProvider_initial ls) = ''dark''"
    by (simp add: UIProvider_initial_def or_default_def)
  have t: "theme st = ''dark''" using st by simp
  show ?thesis using d t g i m by blast
qed

theorem theme_dark_roundtrip_witness:
  "UIProvider_run (UIProvider_mount stale_storage)
     [\<lparr>action_type = ''TOGGLE_DIRECTION'', payload = PUndefined :: string js_payload\<rparr>]
     = Inr (\<lparr>theme = ''blue'', direction = ''ltr'', sidebarOpen = True, loading = False,
             error = None\<rparr>,
            [''theme'' \<mapsto> ''blue'', ''direction'' \<mapsto> ''ltr'']) \<and>
   (\<exists>st ls. UIProvider_dispatch
       (\<lparr>theme = ''blue'', direction = ''ltr'', sidebarOpen = True, loading = False,
         error = None\<rparr>,
        [''theme'' \<mapsto> ''blue'', ''direction'' \<mapsto> ''ltr''])
       (set_theme_action ''dark'' :: string action) = Inr (st, ls) \<and>
     getItem ls ''theme'' = Some ''dark'' \<and> theme (UIProvider_initial ls) = ''dark'')"
proof -
  have h: "UIProvider_run (UIProvider_mount stale_storage)
     [\<lparr>action_type = ''TOGGLE_DIRECTION'', payload = PUndefined :: string js_payload\<rparr>]
     = Inr (\<lparr>theme = ''blue'', direction = ''ltr'', sidebarOpen = True, loading = False,
             error = None\<rparr>,
            [''theme'' \<mapsto> ''blue'', ''direction'' \<mapsto> ''ltr''])"
    by (simp add: UIProvider_mount_def UIProvider_initial_def UIProvider_dispatch_def
          UIProvider_effects_def uiReducer_def stale_storage_def getItem_def setItem_def
          or_default_def Let_def)
  show ?thesis using h theme_dark_roundtrip [OF h] by blast
qed

subsection \<open>Unrecognised actions\<close>

text \<open>
  C10. For every state and every action whose type is not one of the handled cases, the domain
  reducer and the UI-preferences reducer both return the state unchanged (the \<^verbatim>\<open>default\<close>
  branch of each \<^verbatim>\<open>switch\<close>).
\<close>

theorem unhandled_action_noop:
  "(action_type a \<notin> set appReducer_cases \<longrightarrow> appReducer s a = Inr s) \<and>
   (action_type a \<notin> set uiReducer_cases \<longrightarrow> uiReducer u a = Inr u)"
  by (simp add: appReducer_def uiReducer_def appReducer_cases_def uiReducer_cases_def)

theorem unhandled_action_noop_witness:
  "''SET_PAGE'' \<notin> set appReducer_cases \<and> ''SET_PAGE'' \<notin> set uiReducer_cases \<and>
   appReducer app_example \<lparr>action_type = ''SET_PAGE'', payload = PString ''media''\<rparr>
     = Inr app_example \<and>
   uiReducer ui_example \<lparr>action_type = ''SET_PAGE'', payload = PString ''media'' :: string js_payload\<rparr>
     = Inr ui_example"
  using unhandled_action_noop
    [of "\<lparr>action_type = ''SET_PAGE'', payload = PString ''media''\<rparr>" app_example ui_example]
  by (simp add: appReducer_cases_def uiReducer_cases_def)

end
